theory Spec2Isabelle
  imports Complex_Main
begin

section \<open>Data model of the mining bot (src/bot.py)\<close>

text \<open>
  Points in time are naive \<^verbatim>\<open>datetime\<close> values: an integer number of microseconds
  since 0001-01-01 00:00:00, so that midnight is a multiple of a day. A
  \<^verbatim>\<open>timedelta\<close> is the integer difference of two of them.

  Amounts are Python numbers (\<^verbatim>\<open>int\<close> literals mixed with \<^verbatim>\<open>float\<close>
  values). They are idealised as exact rationals: the rounding of binary floating
  point is outside this development.
\<close>

type_synonym datetime = int
type_synonym timedelta = int

definition timedelta_seconds :: "int \<Rightarrow> timedelta" where
  "timedelta_seconds n = n * 1000000"

definition timedelta_hours :: "int \<Rightarrow> timedelta" where
  "timedelta_hours n = timedelta_seconds (n * 3600)"

definition timedelta_days :: "int \<Rightarrow> timedelta" where
  "timedelta_days n = timedelta_hours (n * 24)"

text \<open>\<^verbatim>\<open>timedelta.days\<close>: the normalised day component, the floor of the duration in days.\<close>

definition days :: "timedelta \<Rightarrow> int" where
  "days d = d div timedelta_days 1"

text \<open>\<^verbatim>\<open>int(x)\<close> on a number truncates towards zero.\<close>

definition py_int :: "rat \<Rightarrow> int" where
  "py_int q = (if 0 \<le> q then \<lfloor>q\<rfloor> else \<lceil>q\<rceil>)"

datatype py_error = KeyError | ZeroDivisionError | TelegramError

text \<open>The module constants that \<^verbatim>\<open>config_set\<close> may overwrite at run time.\<close>

record config =
  REFERRAL_REWARD :: rat
  STREAK_BONUS :: rat
  MAX_STREAK_BONUS :: rat
  LEVEL_THRESHOLD :: rat
  LEVEL_BONUS_PERCENT :: rat

definition default_config :: config where
  "default_config =
     \<lparr> REFERRAL_REWARD = 50, STREAK_BONUS = 2, MAX_STREAK_BONUS = 100,
       LEVEL_THRESHOLD = 1000, LEVEL_BONUS_PERCENT = 1 / 10 \<rparr>"

record energy_plan_entry =
  price :: rat
  daily_limit :: rat
  name :: string
  description :: string

definition ENERGY_PLANS :: "string \<rightharpoonup> energy_plan_entry" where
  "ENERGY_PLANS =
     [ ''max'' \<mapsto> \<lparr> price = 50, daily_limit = 50, name = ''Max Energy'',
                     description = ''50 $MEGA mining limit per day'' \<rparr>,
       ''unlimited'' \<mapsto> \<lparr> price = 250, daily_limit = 150, name = ''Unlimited Energy'',
                     description = ''150 $MEGA mining limit per day'' \<rparr> ]"

record user_profile =
  user_id :: int
  balance :: rat
  total_mined :: rat
  mining_count :: int
  referral_count :: int
  achievements :: "string set"
  last_mine_time :: "datetime option"
  current_streak :: int
  highest_streak :: int
  last_daily_bonus :: "datetime option"
  referred_by :: "int option"
  energy_plan :: "string option"
  energy_expires :: "datetime option"

definition UserProfile :: "int \<Rightarrow> user_profile" where
  "UserProfile uid =
     \<lparr> user_id = uid, balance = 0, total_mined = 0, mining_count = 0, referral_count = 0,
       achievements = {}, last_mine_time = None, current_streak = 0, highest_streak = 0,
       last_daily_bonus = None, referred_by = None, energy_plan = None,
       energy_expires = None \<rparr>"

text \<open>
  \<^verbatim>\<open>has_active_plan\<close>: \<^verbatim>\<open>not self.energy_plan\<close> holds for \<^verbatim>\<open>None\<close> and for the
  empty string; a \<^verbatim>\<open>datetime\<close> is always truthy. The clock reading is a parameter.
\<close>

definition has_active_plan :: "user_profile \<Rightarrow> datetime \<Rightarrow> bool" where
  "has_active_plan p now =
     (case energy_plan p of
        None \<Rightarrow> False
      | Some pl \<Rightarrow>
          (case energy_expires p of
             None \<Rightarrow> False
           | Some e \<Rightarrow> if pl = [] then False else now < e))"

definition get_daily_limit :: "user_profile \<Rightarrow> datetime \<Rightarrow> py_error + rat" where
  "get_daily_limit p now =
     (if \<not> has_active_plan p now then Inr 0
      else case energy_plan p of
             None \<Rightarrow> Inr 0
           | Some pl \<Rightarrow>
               (case ENERGY_PLANS pl of
                  None \<Rightarrow> Inl KeyError
                | Some e \<Rightarrow> Inr (daily_limit e)))"

definition calculate_level :: "config \<Rightarrow> rat \<Rightarrow> py_error + int" where
  "calculate_level cfg mined =
     (if LEVEL_THRESHOLD cfg = 0 then Inl ZeroDivisionError
      else Inr (py_int (mined / LEVEL_THRESHOLD cfg)))"

definition calculate_level_bonus :: "config \<Rightarrow> int \<Rightarrow> rat" where
  "calculate_level_bonus cfg lvl = of_int lvl * LEVEL_BONUS_PERCENT cfg"

record task =
  task_id :: int
  title :: string
  task_description :: string
  link :: string
  display_text :: string
  reward :: rat
  created_at :: datetime
  completed_by :: "int set"
  channel_id :: "string option"

text \<open>The module-level stores, passed explicitly.\<close>

record bot_state =
  user_profiles :: "int \<rightharpoonup> user_profile"
  user_actions :: "int \<Rightarrow> rat list"
  suspended_users :: "int set"
  tasks :: "int \<rightharpoonup> task"
  config :: config

definition record_user_action :: "int \<Rightarrow> rat \<Rightarrow> bot_state \<Rightarrow> bot_state" where
  "record_user_action uid t s =
     s\<lparr>user_actions := (user_actions s)(uid := user_actions s uid @ [t])\<rparr>"

text \<open>Messages the bot sends besides the reply to the command.\<close>

datatype notification =
    WeeklyStreakBonus int rat
  | StreakBroken int
  | AchievementUnlocked string
  | NewReferralBonus int rat

section \<open>Streak tracking: \<^verbatim>\<open>check_daily_streak\<close>\<close>

text \<open>
  The body of \<^verbatim>\<open>check_daily_streak\<close> on the profile it has looked up. \<open>now\<close> is its
  own reading of the clock. \<open>sent\<close> tells whether \<^verbatim>\<open>context.bot.send_message\<close>
  returns; here the call is not guarded, so a failure leaves the function with the
  exception after the assignments made so far.
\<close>

definition streak_update ::
  "datetime \<Rightarrow> bool \<Rightarrow> user_profile \<Rightarrow> (py_error + notification list) \<times> user_profile" where
  "streak_update now sent profile =
     (case last_mine_time profile of
        None \<Rightarrow> (Inr [], profile)
      | Some prev \<Rightarrow>
          (let days_difference = days (now - prev) in
           if days_difference \<le> 1 then
             (let p1 = profile\<lparr>current_streak := current_streak profile + 1\<rparr>;
                  p2 = p1\<lparr>highest_streak := max (current_streak p1) (highest_streak p1)\<rparr>
              in if current_streak p2 mod 7 = 0 then
                   (let bonus = 50;
                        p3 = p2\<lparr>balance := balance p2 + bonus\<rparr>
                    in if sent then (Inr [WeeklyStreakBonus (current_streak p3) bonus], p3)
                       else (Inl TelegramError, p3))
                 else (Inr [], p2))
           else if current_streak profile > 0 then
                  (if sent
                   then (Inr [StreakBroken (current_streak profile)],
                         profile\<lparr>current_streak := 1\<rparr>)
                   else (Inl TelegramError, profile))
           else (Inr [], profile\<lparr>current_streak := 1\<rparr>)))"

definition check_daily_streak ::
  "int \<Rightarrow> datetime \<Rightarrow> bool \<Rightarrow> bot_state \<Rightarrow> (py_error + notification list) \<times> bot_state" where
  "check_daily_streak uid now sent s =
     (case user_profiles s uid of
        None \<Rightarrow> (Inl KeyError, s)
      | Some profile \<Rightarrow>
          (case streak_update now sent profile of
             (r, profile') \<Rightarrow> (r, s\<lparr>user_profiles := (user_profiles s)(uid \<mapsto> profile')\<rparr>)))"

section \<open>Achievements: \<^verbatim>\<open>check_achievements\<close>\<close>

definition award ::
  "bool \<Rightarrow> string \<Rightarrow> user_profile \<times> string list \<Rightarrow> user_profile \<times> string list" where
  "award cond a st =
     (case st of (profile, new_achievements) \<Rightarrow>
        if cond \<and> a \<notin> achievements profile
        then (profile\<lparr>achievements := insert a (achievements profile)\<rparr>, new_achievements @ [a])
        else (profile, new_achievements))"

text \<open>
  The five tests in their order. The last one compares the time since local midnight
  with one hour. Sending the notices is guarded in the source, so nothing is raised.
\<close>

definition unlock_achievements :: "datetime \<Rightarrow> user_profile \<Rightarrow> user_profile \<times> string list" where
  "unlock_achievements now profile =
     (let st1 = award (mining_count profile = 1) ''first_mine'' (profile, []);
          st2 = award (current_streak (fst st1) \<ge> 7) ''mining_streak_7'' st1;
          st3 = award (referral_count (fst st2) \<ge> 5) ''referral_master'' st2;
          st4 = award (total_mined (fst st3) \<ge> 1000) ''mega_miner'' st3;
          daily_reset = now - now mod timedelta_days 1
      in award (now - daily_reset \<le> timedelta_seconds 3600) ''early_bird'' st4)"

definition check_achievements ::
  "int \<Rightarrow> datetime \<Rightarrow> bot_state \<Rightarrow> (py_error + notification list) \<times> bot_state" where
  "check_achievements uid now s =
     (case user_profiles s uid of
        None \<Rightarrow> (Inl KeyError, s)
      | Some profile \<Rightarrow>
          (case unlock_achievements now profile of
             (profile', new_achievements) \<Rightarrow>
               (Inr (map AchievementUnlocked new_achievements),
                s\<lparr>user_profiles := (user_profiles s)(uid \<mapsto> profile')\<rparr>)))"

section \<open>The claim: \<^verbatim>\<open>mine\<close>\<close>

text \<open>
  What one run of the handler reads from outside: each call of \<^verbatim>\<open>datetime.now()\<close>
  in the order of the code, the value of \<^verbatim>\<open>time.time()\<close>, the draw of
  \<^verbatim>\<open>random.random()\<close>, and whether the notice sent by the streak check is delivered.
\<close>

record mine_env =
  now_plan :: datetime
  time_action :: rat
  now_claim :: datetime
  now_limit :: datetime
  random_draw :: rat
  now_streak :: datetime
  send_ok :: bool
  now_achievements :: datetime

text \<open>The terms of the reward, as the success reply reports them.\<close>

record mine_report =
  rep_daily_limit :: rat
  rep_bonus :: rat
  rep_streak_bonus :: rat
  rep_level :: int
  rep_level_bonus :: rat
  rep_total_reward :: rat
  rep_notifications :: "notification list"

datatype mine_result =
    Suspended
  | NoActivePlan
  | CooldownActive int
  | MiningSuccessful mine_report
  | Raised py_error

text \<open>
  The part of \<^verbatim>\<open>mine\<close> under the comment \<^verbatim>\<open># Mining process\<close> (from reading the
  daily limit to the two checks that follow the update of the profile), for the
  profile \<open>profile\<close> of \<open>uid\<close> that has passed the plan and cooldown gates.
\<close>

definition mining_process ::
  "int \<Rightarrow> mine_env \<Rightarrow> user_profile \<Rightarrow> bot_state \<Rightarrow> mine_result \<times> bot_state" where
  "mining_process uid env profile s2 =
     (case get_daily_limit profile (now_limit env) of
        Inl e \<Rightarrow> (Raised e, s2)
      | Inr dl \<Rightarrow>
          let bonus = (if random_draw env < 1 / 10 then dl * (1 / 10) else 0);
              streak_bonus =
                (if current_streak profile > 0
                 then min (of_int (current_streak profile) * STREAK_BONUS (config s2))
                          (MAX_STREAK_BONUS (config s2))
                 else 0)
          in
          (case calculate_level (config s2) (total_mined profile) of
             Inl e \<Rightarrow> (Raised e, s2)
           | Inr lvl \<Rightarrow>
               let level_bonus = calculate_level_bonus (config s2) lvl * dl;
                   total_reward = dl + bonus + streak_bonus + level_bonus;
                   profile' = profile
                     \<lparr> balance := balance profile + total_reward,
                       total_mined := total_mined profile + total_reward,
                       mining_count := mining_count profile + 1,
                       last_mine_time := Some (now_claim env) \<rparr>;
                   s3 = s2\<lparr>user_profiles := (user_profiles s2)(uid \<mapsto> profile')\<rparr>
               in
               (case check_daily_streak uid (now_streak env) (send_ok env) s3 of
                  (Inl e, s4) \<Rightarrow> (Raised e, s4)
                | (Inr notes1, s4) \<Rightarrow>
                    (case check_achievements uid (now_achievements env) s4 of
                       (Inl e, s5) \<Rightarrow> (Raised e, s5)
                     | (Inr notes2, s5) \<Rightarrow>
                         (MiningSuccessful
                            \<lparr> rep_daily_limit = dl, rep_bonus = bonus,
                              rep_streak_bonus = streak_bonus,
                              rep_level = lvl, rep_level_bonus = level_bonus,
                              rep_total_reward = total_reward,
                              rep_notifications = notes1 @ notes2 \<rparr>, s5)))))"

text \<open>
  The handler: suspension, creation of a missing profile, the plan gate, the cooldown
  gate (with the remaining whole seconds for display), then the mining process.
\<close>

definition mine :: "int \<Rightarrow> mine_env \<Rightarrow> bot_state \<Rightarrow> mine_result \<times> bot_state" where
  "mine uid env s =
     (if uid \<in> suspended_users s then (Suspended, s)
      else
        let s1 = (if uid \<notin> dom (user_profiles s)
                  then s\<lparr>user_profiles := (user_profiles s)(uid \<mapsto> UserProfile uid)\<rparr>
                  else s)
        in
        (case user_profiles s1 uid of
           None \<Rightarrow> (Raised KeyError, s1)
         | Some profile \<Rightarrow>
             if \<not> has_active_plan profile (now_plan env) then (NoActivePlan, s1)
             else
               let s2 = record_user_action uid (time_action env) s1;
                   current_time = now_claim env
               in
               (case last_mine_time profile of
                  None \<Rightarrow> mining_process uid env profile s2
                | Some prev \<Rightarrow>
                    if current_time - prev < timedelta_hours 24
                    then (CooldownActive
                            ((timedelta_hours 24 - (current_time - prev))
                               div timedelta_seconds 1), s2)
                    else mining_process uid env profile s2)))"

section \<open>Referral signup: \<^verbatim>\<open>start\<close>\<close>

text \<open>
  \<open>arg\<close> is the referrer read from \<^verbatim>\<open>context.args[0]\<close>: \<open>None\<close> when there is no
  argument or when \<^verbatim>\<open>int(...)\<close> raises \<^verbatim>\<open>ValueError\<close>, which the handler swallows.
  The notice to the referrer is guarded in the source: a failed delivery is only logged.
\<close>

datatype start_result = StartSuspended | Welcome "notification list"

definition start :: "int \<Rightarrow> int option \<Rightarrow> rat \<Rightarrow> bot_state \<Rightarrow> start_result \<times> bot_state" where
  "start uid arg t s =
     (if uid \<in> suspended_users s then (StartSuspended, s)
      else
        let s1 = record_user_action uid t s;
            (notes, s2) =
              (case arg of
                 None \<Rightarrow> ([], s1)
               | Some referrer \<Rightarrow>
                   if referrer \<noteq> uid \<and> referrer \<in> dom (user_profiles s1) then
                     (if uid \<notin> dom (user_profiles s1) then
                        (case user_profiles s1 referrer of
                           None \<Rightarrow> ([], s1)
                         | Some referrer_profile \<Rightarrow>
                             let referrer_profile' = referrer_profile
                                   \<lparr> balance := balance referrer_profile + REFERRAL_REWARD (config s1),
                                     referral_count := referral_count referrer_profile + 1 \<rparr>;
                                 new_profile = (UserProfile uid)
                                   \<lparr> balance := REFERRAL_REWARD (config s1),
                                     referred_by := Some referrer \<rparr>
                             in ([NewReferralBonus referrer (REFERRAL_REWARD (config s1))],
                                 s1\<lparr>user_profiles :=
                                      (user_profiles s1)(referrer \<mapsto> referrer_profile',
                                                         uid \<mapsto> new_profile)\<rparr>))
                      else ([], s1))
                   else ([], s1));
            s3 = (if uid \<notin> dom (user_profiles s2)
                  then s2\<lparr>user_profiles := (user_profiles s2)(uid \<mapsto> UserProfile uid)\<rparr>
                  else s2)
        in (Welcome notes, s3))"

section \<open>Task completion: \<^verbatim>\<open>verify_task\<close>\<close>

text \<open>
  \<open>is_member\<close> is the answer of \<^verbatim>\<open>verify_channel_membership\<close>, asked only when the
  task's \<^verbatim>\<open>channel_id\<close> is truthy (neither \<^verbatim>\<open>None\<close> nor empty).

  \<^verbatim>\<open>user_profiles.get(user_id, UserProfile(user_id))\<close> yields the stored object when
  there is one, so the credit reaches the store; otherwise it yields a fresh object
  that is credited, shown in the reply and dropped, and the store stays as it was.
\<close>

datatype task_result =
    TaskNotFound
  | AlreadyCompleted
  | VerificationFailed
  | TaskCompleted rat rat

definition verify_task :: "int \<Rightarrow> int \<Rightarrow> bool \<Rightarrow> bot_state \<Rightarrow> task_result \<times> bot_state" where
  "verify_task uid tid is_member s =
     (case tasks s tid of
        None \<Rightarrow> (TaskNotFound, s)
      | Some task \<Rightarrow>
          if uid \<in> completed_by task then (AlreadyCompleted, s)
          else if channel_id task \<notin> {None, Some []} \<and> \<not> is_member then (VerificationFailed, s)
          else
            let profile = (case user_profiles s uid of
                             Some stored \<Rightarrow> stored
                           | None \<Rightarrow> UserProfile uid);
                profile' = profile\<lparr>balance := balance profile + reward task\<rparr>;
                s1 = (case user_profiles s uid of
                        Some stored \<Rightarrow> s\<lparr>user_profiles := (user_profiles s)(uid \<mapsto> profile')\<rparr>
                      | None \<Rightarrow> s);
                task' = task\<lparr>completed_by := insert uid (completed_by task)\<rparr>
            in (TaskCompleted (reward task) (balance profile'),
                s1\<lparr>tasks := (tasks s1)(tid \<mapsto> task')\<rparr>))"

section \<open>Auxiliary definitions and scenarios\<close>

text \<open>
  The profile as the assignments of \<^verbatim>\<open>mine\<close> leave it (balance, total, count and time
  of the claim), before \<^verbatim>\<open>check_daily_streak\<close> runs.
\<close>

definition claimed :: "user_profile \<Rightarrow> rat \<Rightarrow> datetime \<Rightarrow> user_profile" where
  "claimed profile total_reward current_time =
     profile\<lparr> balance := balance profile + total_reward,
              total_mined := total_mined profile + total_reward,
              mining_count := mining_count profile + 1,
              last_mine_time := Some current_time \<rparr>"

text \<open>
  Concrete inputs: a run of the handler in which every reading of the clock gives \<open>t\<close>
  and the random draw is \<open>d\<close>; user 7 with a thirty-day \<^verbatim>\<open>max\<close> plan bought at time 0,
  first without any claim, then after \<open>n\<close> daily claims worth \<open>m\<close> in total, the last one
  at time 0; a store that holds one profile; a sponsor task and a store that holds
  only this task.
\<close>

definition clock_at :: "datetime \<Rightarrow> rat \<Rightarrow> mine_env" where
  "clock_at t d =
     \<lparr> now_plan = t, time_action = 0, now_claim = t, now_limit = t, random_draw = d,
       now_streak = t, send_ok = True, now_achievements = t \<rparr>"

definition first_timer :: user_profile where
  "first_timer =
     (UserProfile 7)
       \<lparr> energy_plan := Some ''max'', energy_expires := Some (timedelta_days 30) \<rparr>"

definition regular_miner :: "int \<Rightarrow> rat \<Rightarrow> user_profile" where
  "regular_miner n m =
     first_timer
       \<lparr> balance := m, total_mined := m, mining_count := n,
         achievements := {''first_mine''}, last_mine_time := Some 0,
         current_streak := n, highest_streak := n \<rparr>"

definition single_user :: "user_profile \<Rightarrow> bot_state" where
  "single_user p =
     \<lparr> user_profiles = [user_id p \<mapsto> p], user_actions = (\<lambda>_. []), suspended_users = {},
       tasks = Map.empty, config = default_config \<rparr>"

definition news_task :: task where
  "news_task =
     \<lparr> task_id = 1, title = ''Join Channel'', task_description = ''Join our news channel'',
       link = ''https://t.me/news'', display_text = ''Click here to join'', reward = 50,
       created_at = 0, completed_by = {}, channel_id = Some ''news'' \<rparr>"

definition task_only :: bot_state where
  "task_only =
     \<lparr> user_profiles = Map.empty, user_actions = (\<lambda>_. []), suspended_users = {},
       tasks = [1 \<mapsto> news_task], config = default_config \<rparr>"

section \<open>Properties of the handlers\<close>

lemmas fixture_defs = clock_at_def regular_miner_def single_user_def first_timer_def

lemma pair_fstI: "fst x = a \<Longrightarrow> x = (a, snd x)"
  by (cases x) simp



lemma award_frame:
  "\<exists>A. fst q = p\<lparr>achievements := A\<rparr> \<Longrightarrow> \<exists>A. fst (award c a q) = p\<lparr>achievements := A\<rparr>"
  by (cases q) (auto simp: award_def)

lemma unlock_frame:
  "\<exists>A. fst (unlock_achievements now p) = p\<lparr>achievements := A\<rparr>"
proof -
  have "\<exists>A. fst ((p, [])::user_profile \<times> string list) = p\<lparr>achievements := A\<rparr>"
    by (rule exI[of _ "achievements p"]) simp
  then show ?thesis
    unfolding unlock_achievements_def Let_def
    by (intro award_frame)
qed



lemma check_daily_streak_Some:
  "user_profiles s uid = Some p \<Longrightarrow>
   check_daily_streak uid now sent s =
     (fst (streak_update now sent p),
      s\<lparr>user_profiles := (user_profiles s)(uid \<mapsto> snd (streak_update now sent p))\<rparr>)"
  by (simp add: check_daily_streak_def split: prod.splits)

lemma check_achievements_Some:
  "user_profiles s uid = Some p \<Longrightarrow>
   check_achievements uid now s =
     (Inr (map AchievementUnlocked (snd (unlock_achievements now p))),
      s\<lparr>user_profiles := (user_profiles s)(uid \<mapsto> fst (unlock_achievements now p))\<rparr>)"
  by (simp add: check_achievements_def split: prod.splits)

lemma mining_process_success:
  assumes "mining_process uid env profile s2 = (MiningSuccessful r, s')"
  shows "\<exists>dl lvl notes1 pS.
     get_daily_limit profile (now_limit env) = Inr dl \<and>
     calculate_level (config s2) (total_mined profile) = Inr lvl \<and>
     rep_daily_limit r = dl \<and>
     rep_bonus r = (if random_draw env < 1 / 10 then dl * (1 / 10) else 0) \<and>
     rep_streak_bonus r =
       (if current_streak profile > 0
        then min (of_int (current_streak profile) * STREAK_BONUS (config s2)) (MAX_STREAK_BONUS (config s2))
        else 0) \<and>
     rep_level r = lvl \<and>
     rep_level_bonus r = calculate_level_bonus (config s2) lvl * dl \<and>
     rep_total_reward r = rep_daily_limit r + rep_bonus r + rep_streak_bonus r + rep_level_bonus r \<and>
     streak_update (now_streak env) (send_ok env)
       (claimed profile (rep_total_reward r) (now_claim env)) = (Inr notes1, pS) \<and>
     rep_notifications r = notes1 @ map AchievementUnlocked (snd (unlock_achievements (now_achievements env) pS)) \<and>
     user_profiles s' uid = Some (fst (unlock_achievements (now_achievements env) pS))"
proof -
  from assms obtain dl where dl: "get_daily_limit profile (now_limit env) = Inr dl"
    by (cases "get_daily_limit profile (now_limit env)") (simp_all add: mining_process_def)
  from assms dl obtain lvl where lvl: "calculate_level (config s2) (total_mined profile) = Inr lvl"
    by (cases "calculate_level (config s2) (total_mined profile)") (simp_all add: mining_process_def Let_def)
  define bonus where "bonus = (if random_draw env < 1 / 10 then dl * (1 / 10) else 0)"
  define streak_bonus where "streak_bonus = (if current_streak profile > 0
        then min (of_int (current_streak profile) * STREAK_BONUS (config s2)) (MAX_STREAK_BONUS (config s2))
        else 0)"
  define total_reward where "total_reward = dl + bonus + streak_bonus + calculate_level_bonus (config s2) lvl * dl"
  define p1 where "p1 = claimed profile total_reward (now_claim env)"
  define s3 where "s3 = s2\<lparr>user_profiles := (user_profiles s2)(uid \<mapsto> p1)\<rparr>"
  define su where "su = streak_update (now_streak env) (send_ok env) p1"
  define s4 where "s4 = s3\<lparr>user_profiles := (user_profiles s3)(uid \<mapsto> snd su)\<rparr>"
  have l3: "user_profiles s3 uid = Some p1" by (simp add: s3_def)
  have cds: "check_daily_streak uid (now_streak env) (send_ok env) s3 = (fst su, s4)"
    unfolding su_def s4_def by (rule check_daily_streak_Some[OF l3])
  have l4: "user_profiles s4 uid = Some (snd su)" by (simp add: s4_def)
  note ca = check_achievements_Some[OF l4, of "now_achievements env"]
  have unf: "mining_process uid env profile s2 =
    (case fst su of Inl e \<Rightarrow> (Raised e, s4)
     | Inr notes1 \<Rightarrow>
        (MiningSuccessful
           \<lparr> rep_daily_limit = dl, rep_bonus = bonus, rep_streak_bonus = streak_bonus,
             rep_level = lvl, rep_level_bonus = calculate_level_bonus (config s2) lvl * dl,
             rep_total_reward = total_reward,
             rep_notifications = notes1 @ map AchievementUnlocked (snd (unlock_achievements (now_achievements env) (snd su))) \<rparr>,
         s4\<lparr>user_profiles := (user_profiles s4)(uid \<mapsto> fst (unlock_achievements (now_achievements env) (snd su)))\<rparr>))"
    unfolding mining_process_def dl lvl Let_def sum.case
      bonus_def[symmetric] streak_bonus_def[symmetric] total_reward_def[symmetric]
      claimed_def[symmetric] p1_def[symmetric] s3_def[symmetric] cds
    by (simp add: ca split: sum.splits)
  from assms unf obtain notes1 where n1: "fst su = Inr notes1"
    by (cases "fst su") simp_all
  from assms unf n1 have r: "r = \<lparr> rep_daily_limit = dl, rep_bonus = bonus, rep_streak_bonus = streak_bonus,
             rep_level = lvl, rep_level_bonus = calculate_level_bonus (config s2) lvl * dl,
             rep_total_reward = total_reward,
             rep_notifications = notes1 @ map AchievementUnlocked (snd (unlock_achievements (now_achievements env) (snd su))) \<rparr>"
    and s': "s' = s4\<lparr>user_profiles := (user_profiles s4)(uid \<mapsto> fst (unlock_achievements (now_achievements env) (snd su)))\<rparr>"
    by simp_all
  have su_eq: "streak_update (now_streak env) (send_ok env) (claimed profile (rep_total_reward r) (now_claim env)) = (Inr notes1, snd su)"
    using n1 by (simp add: r su_def p1_def prod_eq_iff)
  show ?thesis
    apply (rule exI[of _ dl], rule exI[of _ lvl], rule exI[of _ notes1], rule exI[of _ "snd su"])
    apply (intro conjI)
              apply (rule dl)
             apply (rule lvl)
            apply (simp add: r)
           apply (simp add: r bonus_def)
          apply (simp add: r streak_bonus_def)
         apply (simp add: r)
        apply (simp add: r)
       apply (simp add: r total_reward_def)
      apply (rule su_eq)
     apply (simp add: r)
    apply (simp add: s')
    done
qed



lemma mine_success:
  assumes "mine uid env s = (MiningSuccessful r, s')"
  shows "\<exists>profile.
     user_profiles s uid = Some profile \<and>
     uid \<notin> suspended_users s \<and>
     has_active_plan profile (now_plan env) \<and>
     (\<forall>prev. last_mine_time profile = Some prev \<longrightarrow> \<not> now_claim env - prev < timedelta_hours 24) \<and>
     mining_process uid env profile (record_user_action uid (time_action env) s) = (MiningSuccessful r, s')"
proof -
  have ns: "uid \<notin> suspended_users s"
    using assms by (auto simp: mine_def)
  have new: "\<not> has_active_plan (UserProfile uid) (now_plan env)"
    by (simp add: has_active_plan_def UserProfile_def)
  obtain profile where p: "user_profiles s uid = Some profile"
    using assms ns new by (cases "user_profiles s uid") (auto simp: mine_def Let_def domIff)
  have dom: "uid \<in> dom (user_profiles s)" using p by auto
  have unf: "mine uid env s =
     (if \<not> has_active_plan profile (now_plan env) then (NoActivePlan, s)
      else (case last_mine_time profile of
                  None \<Rightarrow> mining_process uid env profile (record_user_action uid (time_action env) s)
                | Some prev \<Rightarrow>
                    if now_claim env - prev < timedelta_hours 24
                    then (CooldownActive
                            ((timedelta_hours 24 - (now_claim env - prev))
                               div timedelta_seconds 1), record_user_action uid (time_action env) s)
                    else mining_process uid env profile (record_user_action uid (time_action env) s)))"
    using ns dom p by (simp add: mine_def Let_def)
  from assms unf have act: "has_active_plan profile (now_plan env)"
    by (auto split: if_splits)
  from assms unf act have cd: "\<forall>prev. last_mine_time profile = Some prev \<longrightarrow> \<not> now_claim env - prev < timedelta_hours 24"
    by (auto split: if_splits option.splits)
  from assms unf act cd have mp: "mining_process uid env profile (record_user_action uid (time_action env) s) = (MiningSuccessful r, s')"
    by (cases "last_mine_time profile") (auto split: if_splits)
  show ?thesis using p ns act cd mp by blast
qed

lemma streak_update_after_claim:
  assumes "streak_update now sent p = (Inr notes, pS)" and "last_mine_time p = Some t"
  shows "total_mined pS = total_mined p \<and> mining_count pS = mining_count p \<and>
         last_mine_time pS = last_mine_time p \<and>
         balance pS = balance p + (if current_streak pS mod 7 = 0 then 50 else 0) \<and>
         current_streak pS = (if days (now - t) \<le> 1 then current_streak p + 1 else 1) \<and>
         (\<forall>n. StreakBroken n \<in> set notes \<longrightarrow> \<not> days (now - t) \<le> 1)"
  using assms
  by (auto simp: streak_update_def Let_def split: if_splits)

lemma unlock_fields:
  "balance (fst (unlock_achievements now p)) = balance p"
  "total_mined (fst (unlock_achievements now p)) = total_mined p"
  "mining_count (fst (unlock_achievements now p)) = mining_count p"
  "current_streak (fst (unlock_achievements now p)) = current_streak p"
  "highest_streak (fst (unlock_achievements now p)) = highest_streak p"
  "last_mine_time (fst (unlock_achievements now p)) = last_mine_time p"
  using unlock_frame[of now p] by auto

lemma mine_success_profile:
  assumes "mine uid env s = (MiningSuccessful r, s')" and "user_profiles s uid = Some p"
  shows "\<exists>p'. user_profiles s' uid = Some p' \<and>
     balance p' = balance p + rep_total_reward r + (if current_streak p' mod 7 = 0 then 50 else 0) \<and>
     total_mined p' = total_mined p + rep_total_reward r \<and>
     mining_count p' = mining_count p + 1 \<and>
     last_mine_time p' = Some (now_claim env) \<and>
     current_streak p' = (if days (now_streak env - now_claim env) \<le> 1 then current_streak p + 1 else 1) \<and>
     (\<forall>n. StreakBroken n \<in> set (rep_notifications r) \<longrightarrow> \<not> days (now_streak env - now_claim env) \<le> 1)"
proof -
  from mine_success[OF assms(1)] assms(2)
  have mp: "mining_process uid env p (record_user_action uid (time_action env) s) = (MiningSuccessful r, s')"
    by auto
  from mining_process_success[OF mp] obtain notes1 pS where
    su: "streak_update (now_streak env) (send_ok env) (claimed p (rep_total_reward r) (now_claim env)) = (Inr notes1, pS)"
    and nt: "rep_notifications r = notes1 @ map AchievementUnlocked (snd (unlock_achievements (now_achievements env) pS))"
    and s': "user_profiles s' uid = Some (fst (unlock_achievements (now_achievements env) pS))"
    by blast
  have lm: "last_mine_time (claimed p (rep_total_reward r) (now_claim env)) = Some (now_claim env)"
    by (simp add: claimed_def)
  note st = streak_update_after_claim[OF su lm]
  have nb: "\<forall>n. StreakBroken n \<in> set (rep_notifications r) \<longrightarrow> StreakBroken n \<in> set notes1"
    by (auto simp: nt)
  show ?thesis
    apply (rule exI[of _ "fst (unlock_achievements (now_achievements env) pS)"])
    using st nb by (auto simp add: s' unlock_fields claimed_def)
qed

lemma mining_process_eval:
  assumes dl: "get_daily_limit profile (now_limit env) = Inr dl"
    and lvl: "calculate_level (config s2) (total_mined profile) = Inr lvl"
    and bonus: "bonus = (if random_draw env < 1 / 10 then dl * (1 / 10) else 0)"
    and sb: "streak_bonus = (if current_streak profile > 0
        then min (of_int (current_streak profile) * STREAK_BONUS (config s2)) (MAX_STREAK_BONUS (config s2))
        else 0)"
    and tr: "total_reward = dl + bonus + streak_bonus + calculate_level_bonus (config s2) lvl * dl"
    and su: "streak_update (now_streak env) (send_ok env) (claimed profile total_reward (now_claim env))
               = (Inr notes1, pS)"
  shows "mining_process uid env profile s2 =
    (MiningSuccessful
       \<lparr> rep_daily_limit = dl, rep_bonus = bonus, rep_streak_bonus = streak_bonus,
         rep_level = lvl, rep_level_bonus = calculate_level_bonus (config s2) lvl * dl,
         rep_total_reward = total_reward,
         rep_notifications = notes1 @ map AchievementUnlocked (snd (unlock_achievements (now_achievements env) pS)) \<rparr>,
     s2\<lparr>user_profiles := (user_profiles s2)(uid \<mapsto> fst (unlock_achievements (now_achievements env) pS))\<rparr>)"
proof -
  define p1 where "p1 = claimed profile total_reward (now_claim env)"
  define s3 where "s3 = s2\<lparr>user_profiles := (user_profiles s2)(uid \<mapsto> p1)\<rparr>"
  define s4 where "s4 = s3\<lparr>user_profiles := (user_profiles s3)(uid \<mapsto> pS)\<rparr>"
  have l3: "user_profiles s3 uid = Some p1" by (simp add: s3_def)
  have cds: "check_daily_streak uid (now_streak env) (send_ok env) s3 = (Inr notes1, s4)"
    using check_daily_streak_Some[OF l3, of "now_streak env" "send_ok env"] su
    by (simp add: p1_def s4_def)
  have l4: "user_profiles s4 uid = Some pS" by (simp add: s4_def)
  note ca = check_achievements_Some[OF l4, of "now_achievements env"]
  have s4': "s4\<lparr>user_profiles := (user_profiles s4)(uid \<mapsto> q)\<rparr>
             = s2\<lparr>user_profiles := (user_profiles s2)(uid \<mapsto> q)\<rparr>" for q
    by (simp add: s4_def s3_def)
  show ?thesis
    unfolding mining_process_def dl lvl Let_def sum.case
      bonus[symmetric] sb[symmetric] tr[symmetric]
      claimed_def[symmetric] p1_def[symmetric] s3_def[symmetric] cds
    by (simp add: ca s4')
qed

lemma py_int_zero: "py_int 0 = 0"
  by (simp add: py_int_def)

section \<open>The claims\<close>

subsection \<open>C1: which streak the streak bonus is computed from\<close>

text \<open>
  C1, as stated, fails: the streak bonus of a successful claim is not
  \<open>min (streak after the update * 2) 100\<close>. User 7 has a streak of 3 and claims 36 hours
  after the last claim: the bonus is 6, the streak after the claim is 4, and
  \<open>min (4 * 2) 100 = 8\<close>.
\<close>

theorem C1_counterexample:
  "fst (mine 7 (clock_at (timedelta_hours 36) (1 / 2)) (single_user (regular_miner 3 156))) =
     MiningSuccessful
       \<lparr> rep_daily_limit = 50, rep_bonus = 0, rep_streak_bonus = 6, rep_level = 0,
         rep_level_bonus = 0, rep_total_reward = 56, rep_notifications = [] \<rparr>
   \<and> map_option current_streak
        (user_profiles
           (snd (mine 7 (clock_at (timedelta_hours 36) (1 / 2)) (single_user (regular_miner 3 156)))) 7)
       = Some 4
   \<and> (6::rat) \<noteq> min (of_int 4 * 2) 100"
proof (intro conjI)
  show "fst (mine 7 (clock_at (timedelta_hours 36) (1 / 2)) (single_user (regular_miner 3 156))) =
     MiningSuccessful
       \<lparr> rep_daily_limit = 50, rep_bonus = 0, rep_streak_bonus = 6, rep_level = 0,
         rep_level_bonus = 0, rep_total_reward = 56, rep_notifications = [] \<rparr>"
    by code_simp
  show "map_option current_streak
        (user_profiles
           (snd (mine 7 (clock_at (timedelta_hours 36) (1 / 2)) (single_user (regular_miner 3 156)))) 7)
       = Some 4"
    by code_simp
  show "(6::rat) \<noteq> min (of_int 4 * 2) 100"
    by simp
qed

text \<open>
  C1, amended: for every successful claim under the shipped constants (2 per day, at
  most 100), the streak bonus is \<open>min (s * 2) 100\<close> where \<open>s\<close> is the streak the profile
  holds before the claim, and 0 when \<open>s\<close> is not positive: \<^verbatim>\<open>mine\<close> computes the bonus
  before it calls \<^verbatim>\<open>check_daily_streak\<close>.
\<close>

theorem C1_streak_bonus_from_streak_before_claim:
  assumes "mine uid env s = (MiningSuccessful r, s')"
    and "user_profiles s uid = Some p"
    and "STREAK_BONUS (config s) = 2" and "MAX_STREAK_BONUS (config s) = 100"
  shows "rep_streak_bonus r =
           (if 0 < current_streak p then min (of_int (current_streak p) * 2) 100 else 0)"
proof -
  from mine_success[OF assms(1)] assms(2)
  have mp: "mining_process uid env p (record_user_action uid (time_action env) s)
              = (MiningSuccessful r, s')"
    by auto
  have cfg: "config (record_user_action uid (time_action env) s) = config s"
    by (simp add: record_user_action_def)
  from mining_process_success[OF mp]
  have "rep_streak_bonus r =
       (if current_streak p > 0
        then min (of_int (current_streak p) * STREAK_BONUS (config s)) (MAX_STREAK_BONUS (config s))
        else 0)"
    unfolding cfg by blast
  then show ?thesis by (simp add: assms(3,4))
qed

text \<open>
  Witness for C1: the claim of the user with streak 3 satisfies every hypothesis, and
  its bonus is \<open>min (3 * 2) 100 = 6\<close>.
\<close>

theorem C1_witness:
  "mine 7 (clock_at (timedelta_hours 36) (1 / 2)) (single_user (regular_miner 3 156)) =
     (MiningSuccessful
        \<lparr> rep_daily_limit = 50, rep_bonus = 0, rep_streak_bonus = 6, rep_level = 0,
          rep_level_bonus = 0, rep_total_reward = 56, rep_notifications = [] \<rparr>,
      snd (mine 7 (clock_at (timedelta_hours 36) (1 / 2)) (single_user (regular_miner 3 156))))
   \<and> user_profiles (single_user (regular_miner 3 156)) 7 = Some (regular_miner 3 156)
   \<and> STREAK_BONUS (config (single_user (regular_miner 3 156))) = 2
   \<and> MAX_STREAK_BONUS (config (single_user (regular_miner 3 156))) = 100
   \<and> current_streak (regular_miner 3 156) = 3
   \<and> (6::rat) = min (of_int 3 * 2) 100"
proof -
  let ?s = "single_user (regular_miner 3 156)"
  let ?env = "clock_at (timedelta_hours 36) (1 / 2)"
  let ?r = "\<lparr> rep_daily_limit = 50, rep_bonus = 0, rep_streak_bonus = 6, rep_level = 0,
          rep_level_bonus = 0, rep_total_reward = 56, rep_notifications = [] \<rparr>"
  have f: "fst (mine 7 ?env ?s) = MiningSuccessful ?r" by code_simp
  have h1: "mine 7 ?env ?s = (MiningSuccessful ?r, snd (mine 7 ?env ?s))"
    by (rule pair_fstI[OF f])
  have h2: "user_profiles ?s 7 = Some (regular_miner 3 156)"
    by (simp add: fixture_defs UserProfile_def)
  have h3: "STREAK_BONUS (config ?s) = 2" by (simp add: fixture_defs default_config_def)
  have h4: "MAX_STREAK_BONUS (config ?s) = 100" by (simp add: fixture_defs default_config_def)
  have h5: "current_streak (regular_miner 3 156) = 3" by (simp add: fixture_defs)
  from C1_streak_bonus_from_streak_before_claim[OF h1 h2 h3 h4]
  have h6: "(6::rat) = min (of_int 3 * 2) 100" by (simp add: h5)
  from h1 h2 h3 h4 h5 h6 show ?thesis by blast
qed

subsection \<open>C2: what a successful claim adds to the profile\<close>



subsection \<open>C3: a claim within 24 hours of the last one\<close>

text \<open>
  C3, as stated, fails when the plan has run out: user 7 claimed at time 0, the plan
  ended after 6 hours, and the attempt after 12 hours is answered with
  \<open>NoActivePlan\<close>, not with \<open>CooldownActive\<close>.
\<close>

theorem C3_counterexample:
  "last_mine_time ((regular_miner 1 50)\<lparr>energy_expires := Some (timedelta_hours 6)\<rparr>) = Some 0
   \<and> now_claim (clock_at (timedelta_hours 12) (1 / 2)) - 0 < timedelta_hours 24
   \<and> fst (mine 7 (clock_at (timedelta_hours 12) (1 / 2))
             (single_user ((regular_miner 1 50)\<lparr>energy_expires := Some (timedelta_hours 6)\<rparr>)))
       = NoActivePlan"
proof (intro conjI)
  show "last_mine_time ((regular_miner 1 50)\<lparr>energy_expires := Some (timedelta_hours 6)\<rparr>) = Some 0"
    by code_simp
  show "now_claim (clock_at (timedelta_hours 12) (1 / 2)) - 0 < timedelta_hours 24"
    by code_simp
  show "fst (mine 7 (clock_at (timedelta_hours 12) (1 / 2))
             (single_user ((regular_miner 1 50)\<lparr>energy_expires := Some (timedelta_hours 6)\<rparr>)))
       = NoActivePlan"
    by code_simp
qed

text \<open>
  C3, amended: for a user who is not suspended and whose last successful claim is less
  than 24 hours before the attempt, the attempt is rejected and leaves every profile
  as it was; the reason is \<open>CooldownActive\<close> (with the remaining whole seconds) when
  the plan is active at the attempt, and \<open>NoActivePlan\<close> otherwise, because the plan
  gate comes first.
\<close>

theorem C3_cooldown_after_plan_gate:
  assumes "uid \<notin> suspended_users s"
    and "user_profiles s uid = Some p"
    and "last_mine_time p = Some t"
    and "now_claim env - t < timedelta_hours 24"
  shows "fst (mine uid env s) =
           (if has_active_plan p (now_plan env)
            then CooldownActive ((timedelta_hours 24 - (now_claim env - t)) div timedelta_seconds 1)
            else NoActivePlan)
         \<and> user_profiles (snd (mine uid env s)) = user_profiles s"
  using assms
  by (simp add: mine_def Let_def domIff record_user_action_def)

text \<open>
  Witness for C3: 12 hours after the claim at time 0, with the plan still active, the
  attempt is rejected with 43200 seconds of cooldown left.
\<close>

theorem C3_witness:
  "7 \<notin> suspended_users (single_user (regular_miner 1 50))
   \<and> user_profiles (single_user (regular_miner 1 50)) 7 = Some (regular_miner 1 50)
   \<and> last_mine_time (regular_miner 1 50) = Some 0
   \<and> now_claim (clock_at (timedelta_hours 12) (1 / 2)) - 0 < timedelta_hours 24
   \<and> has_active_plan (regular_miner 1 50) (now_plan (clock_at (timedelta_hours 12) (1 / 2)))
   \<and> fst (mine 7 (clock_at (timedelta_hours 12) (1 / 2)) (single_user (regular_miner 1 50)))
       = CooldownActive 43200"
proof -
  let ?s = "single_user (regular_miner 1 50)"
  let ?env = "clock_at (timedelta_hours 12) (1 / 2)"
  have h1: "7 \<notin> suspended_users ?s" by (simp add: single_user_def)
  have h2: "user_profiles ?s 7 = Some (regular_miner 1 50)"
    by (simp add: fixture_defs UserProfile_def)
  have h3: "last_mine_time (regular_miner 1 50) = Some 0" by (simp add: fixture_defs)
  have h4: "now_claim ?env - 0 < timedelta_hours 24"
    by (simp add: clock_at_def timedelta_hours_def timedelta_seconds_def)
  have h5: "has_active_plan (regular_miner 1 50) (now_plan ?env)"
    by (simp add: has_active_plan_def fixture_defs timedelta_days_def timedelta_hours_def
        timedelta_seconds_def)
  have h6: "(timedelta_hours 24 - (now_claim ?env - 0)) div timedelta_seconds 1 = 43200"
    by (simp add: clock_at_def timedelta_hours_def timedelta_seconds_def)
  from C3_cooldown_after_plan_gate[OF h1 h2 h3 h4]
  have "fst (mine 7 ?env ?s) = CooldownActive 43200"
    by (simp only: h5 h6 if_True)
  with h1 h2 h3 h4 h5 show ?thesis by blast
qed

text \<open>
  The time that the cooldown gate reads is the one that the last successful claim
  stored.
\<close>

lemma mine_success_sets_last_mine_time:
  assumes "mine uid env s = (MiningSuccessful r, s')"
  shows "map_option last_mine_time (user_profiles s' uid) = Some (Some (now_claim env))"
proof -
  from mine_success[OF assms] obtain p where "user_profiles s uid = Some p" by blast
  from mine_success_profile[OF assms this] show ?thesis by auto
qed

subsection \<open>C4: completing a task\<close>

text \<open>
  C4 at the input where the code misses it: user 7 has no stored profile (the verify
  button was pressed by someone who never used the bot) and the membership check
  passes. The reply announces a reward of 50 and a new balance of 50, the user enters
  \<^verbatim>\<open>completed_by\<close>, and no profile of user 7 is in the store: the credit went to an
  object that was never stored. A second call answers \<open>AlreadyCompleted\<close>, so the
  reward cannot be obtained later either.
\<close>

theorem C4_reward_dropped_without_stored_profile:
  "fst (verify_task 7 1 True task_only) = TaskCompleted 50 50
   \<and> map_option balance (user_profiles (snd (verify_task 7 1 True task_only)) 7) = None
   \<and> map_option completed_by (tasks (snd (verify_task 7 1 True task_only)) 1) = Some {7}
   \<and> fst (verify_task 7 1 True (snd (verify_task 7 1 True task_only))) = AlreadyCompleted
   \<and> map_option balance
        (user_profiles (snd (verify_task 7 1 True (snd (verify_task 7 1 True task_only)))) 7) = None"
proof (intro conjI)
  show "fst (verify_task 7 1 True task_only) = TaskCompleted 50 50"
    by code_simp
  show "map_option balance (user_profiles (snd (verify_task 7 1 True task_only)) 7) = None"
    by code_simp
  show "map_option completed_by (tasks (snd (verify_task 7 1 True task_only)) 1) = Some {7}"
    by code_simp
  show "fst (verify_task 7 1 True (snd (verify_task 7 1 True task_only))) = AlreadyCompleted"
    by code_simp
  show "map_option balance
        (user_profiles (snd (verify_task 7 1 True (snd (verify_task 7 1 True task_only)))) 7) = None"
    by code_simp
qed

text \<open>
  What holds on the other paths: a user already in \<^verbatim>\<open>completed_by\<close> is rejected and
  nothing changes; a failed membership check changes nothing; a user with a stored
  profile is credited exactly the reward and entered in \<^verbatim>\<open>completed_by\<close>, and a
  second call is rejected without a change.
\<close>

lemma verify_task_already_completed:
  assumes "tasks s tid = Some tk" and "uid \<in> completed_by tk"
  shows "verify_task uid tid is_member s = (AlreadyCompleted, s)"
  using assms by (simp add: verify_task_def)

lemma verify_task_verification_failed:
  assumes "tasks s tid = Some tk" and "uid \<notin> completed_by tk"
    and "channel_id tk \<notin> {None, Some []}"
  shows "verify_task uid tid False s = (VerificationFailed, s)"
  using assms by (simp add: verify_task_def)

lemma verify_task_stored_profile:
  assumes "tasks s tid = Some tk" and "uid \<notin> completed_by tk"
    and "user_profiles s uid = Some p"
    and "channel_id tk \<in> {None, Some []} \<or> is_member"
  shows "verify_task uid tid is_member s =
           (TaskCompleted (reward tk) (balance p + reward tk),
            s\<lparr> user_profiles := (user_profiles s)(uid \<mapsto> p\<lparr>balance := balance p + reward tk\<rparr>),
               tasks := (tasks s)(tid \<mapsto> tk\<lparr>completed_by := insert uid (completed_by tk)\<rparr>) \<rparr>)"
  using assms by (auto simp: verify_task_def Let_def)

lemma verify_task_twice_stored_profile:
  assumes "tasks s tid = Some tk" and "uid \<notin> completed_by tk"
    and "user_profiles s uid = Some p"
    and "channel_id tk \<in> {None, Some []} \<or> is_member"
  shows "verify_task uid tid is_member' (snd (verify_task uid tid is_member s))
           = (AlreadyCompleted, snd (verify_task uid tid is_member s))"
  unfolding verify_task_stored_profile[OF assms] snd_conv
  by (rule verify_task_already_completed[where tk = "tk\<lparr>completed_by := insert uid (completed_by tk)\<rparr>"])
     simp_all

subsection \<open>C5: highest streak against current streak after the streak check\<close>

text \<open>
  The two branches of the streak check on their own. The increment branch takes the
  maximum, so it establishes the invariant for every profile. The streak-broken branch
  sets the current streak to 1 and does not touch the highest streak, so it keeps the
  invariant when the highest streak is at least 1.
\<close>

lemma streak_update_maintained_invariant:
  assumes "last_mine_time p = Some t" and "days (now - t) \<le> 1"
  shows "current_streak (snd (streak_update now sent p))
           \<le> highest_streak (snd (streak_update now sent p))"
  using assms by (simp add: streak_update_def Let_def)

lemma streak_update_reset_invariant:
  assumes "last_mine_time p = Some t" and "\<not> days (now - t) \<le> 1"
    and "current_streak p \<le> highest_streak p" and "1 \<le> highest_streak p"
  shows "current_streak (snd (streak_update now sent p))
           \<le> highest_streak (snd (streak_update now sent p))"
  using assms by (simp add: streak_update_def Let_def)

text \<open>
  A duration of less than two days has a day component of at most 1, which is the test
  of the increment branch. The errors that the steps before the streak check can
  raise are not the one that its notice raises.
\<close>

lemma days_within_two_days:
  assumes "d < timedelta_days 2"
  shows "days d \<le> 1"
proof -
  have d: "d < 172800000000"
    using assms by (simp add: timedelta_days_def timedelta_hours_def timedelta_seconds_def)
  have "d div 86400000000 \<le> 1"
    using d by presburger
  then show ?thesis
    by (simp add: days_def timedelta_days_def timedelta_hours_def timedelta_seconds_def)
qed



text \<open>
  The streak check on a profile whose stored time of claim is less than two days
  before the clock it reads: the invariant holds afterwards, whether the notice is
  delivered or not.
\<close>

lemma check_daily_streak_recent_claim:
  assumes "user_profiles s uid = Some p" and "last_mine_time p = Some t"
    and "now - t < timedelta_days 2"
  shows "\<exists>p'. user_profiles (snd (check_daily_streak uid now sent s)) uid = Some p' \<and>
              current_streak p' \<le> highest_streak p'"
  using streak_update_maintained_invariant[OF assms(2) days_within_two_days[OF assms(3)], of sent]
  by (simp add: check_daily_streak_Some[OF assms(1)])




lemma streak_seven_after_failed_notice:
  "map_option current_streak
     (user_profiles
        (snd (mine 7 ((clock_at (timedelta_hours 36) (1 / 2))\<lparr>send_ok := False\<rparr>)
                (single_user (regular_miner 6 330)))) 7) = Some 7
   \<and> map_option highest_streak
     (user_profiles
        (snd (mine 7 ((clock_at (timedelta_hours 36) (1 / 2))\<lparr>send_ok := False\<rparr>)
                (single_user (regular_miner 6 330)))) 7) = Some 7"
proof (intro conjI)
  show "map_option current_streak
     (user_profiles
        (snd (mine 7 ((clock_at (timedelta_hours 36) (1 / 2))\<lparr>send_ok := False\<rparr>)
                (single_user (regular_miner 6 330)))) 7) = Some 7"
    by code_simp
  show "map_option highest_streak
     (user_profiles
        (snd (mine 7 ((clock_at (timedelta_hours 36) (1 / 2))\<lparr>send_ok := False\<rparr>)
                (single_user (regular_miner 6 330)))) 7) = Some 7"
    by code_simp
qed

text \<open>
  Outside the assumption on the clock: a streak check that reads a clock two days
  after the stored time of claim, on a profile with both streaks at 0, takes the
  streak-broken branch and leaves the current streak at 1 and the highest at 0. Through
  \<^verbatim>\<open>mine\<close> this needs the clock to step two days ahead between the two adjacent
  readings of one first claim.
\<close>

lemma reset_branch_from_zero_streaks:
  "fst (check_daily_streak 7 (timedelta_days 2) True
          (single_user ((UserProfile 7)\<lparr>last_mine_time := Some 0\<rparr>))) = Inr []
   \<and> map_option current_streak
        (user_profiles
           (snd (check_daily_streak 7 (timedelta_days 2) True
                   (single_user ((UserProfile 7)\<lparr>last_mine_time := Some 0\<rparr>)))) 7) = Some 1
   \<and> map_option highest_streak
        (user_profiles
           (snd (check_daily_streak 7 (timedelta_days 2) True
                   (single_user ((UserProfile 7)\<lparr>last_mine_time := Some 0\<rparr>)))) 7) = Some 0"
proof (intro conjI)
  show "fst (check_daily_streak 7 (timedelta_days 2) True
          (single_user ((UserProfile 7)\<lparr>last_mine_time := Some 0\<rparr>))) = Inr []"
    by code_simp
  show "map_option current_streak
        (user_profiles
           (snd (check_daily_streak 7 (timedelta_days 2) True
                   (single_user ((UserProfile 7)\<lparr>last_mine_time := Some 0\<rparr>)))) 7) = Some 1"
    by code_simp
  show "map_option highest_streak
        (user_profiles
           (snd (check_daily_streak 7 (timedelta_days 2) True
                   (single_user ((UserProfile 7)\<lparr>last_mine_time := Some 0\<rparr>)))) 7) = Some 0"
    by code_simp
qed

lemma first_claim_across_clock_step:
  "map_option current_streak
     (user_profiles
        (snd (mine 7 ((clock_at 0 (1 / 2))\<lparr>now_streak := timedelta_days 2\<rparr>)
                (single_user first_timer))) 7) = Some 1
   \<and> map_option highest_streak
     (user_profiles
        (snd (mine 7 ((clock_at 0 (1 / 2))\<lparr>now_streak := timedelta_days 2\<rparr>)
                (single_user first_timer))) 7) = Some 0"
proof (intro conjI)
  show "map_option current_streak
     (user_profiles
        (snd (mine 7 ((clock_at 0 (1 / 2))\<lparr>now_streak := timedelta_days 2\<rparr>)
                (single_user first_timer))) 7) = Some 1"
    by code_simp
  show "map_option highest_streak
     (user_profiles
        (snd (mine 7 ((clock_at 0 (1 / 2))\<lparr>now_streak := timedelta_days 2\<rparr>)
                (single_user first_timer))) 7) = Some 0"
    by code_simp
qed

subsection \<open>C6: referral attribution at signup\<close>

text \<open>
  What \<^verbatim>\<open>start\<close> does for a suspended user, for a user with a profile, and to the set
  of known users.
\<close>

lemma start_suspended: "uid \<in> suspended_users s \<Longrightarrow> start uid arg t s = (StartSuspended, s)"
  by (simp add: start_def)

lemma start_known_user:
  assumes "uid \<in> dom (user_profiles s)"
  shows "user_profiles (snd (start uid arg t s)) = user_profiles s"
  using assms
  by (cases arg) (auto simp: start_def Let_def record_user_action_def split: option.splits)

lemma start_registers_user:
  assumes "uid \<notin> suspended_users s"
  shows "uid \<in> dom (user_profiles (snd (start uid arg t s)))"
  using assms
  by (cases arg) (auto simp: start_def Let_def record_user_action_def split: option.splits)

lemma start_keeps_suspended: "suspended_users (snd (start uid arg t s)) = suspended_users s"
  by (cases arg) (auto simp: start_def Let_def record_user_action_def split: option.splits)

lemma start_again:
  "user_profiles (snd (start uid arg' t' (snd (start uid arg t s))))
     = user_profiles (snd (start uid arg t s))"
proof (cases "uid \<in> suspended_users s")
  case True
  then show ?thesis by (simp add: start_suspended)
next
  case False
  from start_registers_user[OF False] show ?thesis by (rule start_known_user)
qed

text \<open>
  C6: for a new user who is not suspended, \<^verbatim>\<open>start\<close> with a referrer argument
  attributes the signup exactly when the referrer is another user, has a profile, and
  the new user has none: then the referrer's balance grows by the referral reward and
  the referral count by 1, and the new profile starts with the referral reward as
  balance and the referrer in \<^verbatim>\<open>referred_by\<close>. In every other case the profiles are
  left as they were, apart from the plain profile created for a user without one. A
  second \<^verbatim>\<open>start\<close> of the same user, with any argument, leaves all profiles as the
  first one left them.
\<close>

theorem C6_referral_first_contact_only:
  assumes "uid \<notin> suspended_users s"
  shows "(referrer \<noteq> uid \<and> user_profiles s referrer = Some rp \<and> user_profiles s uid = None \<longrightarrow>
            user_profiles (snd (start uid (Some referrer) t s)) =
              (user_profiles s)
                (referrer \<mapsto> rp\<lparr> balance := balance rp + REFERRAL_REWARD (config s),
                                 referral_count := referral_count rp + 1 \<rparr>,
                 uid \<mapsto> (UserProfile uid)\<lparr> balance := REFERRAL_REWARD (config s),
                                          referred_by := Some referrer \<rparr>))
       \<and> (\<not> (referrer \<noteq> uid \<and> referrer \<in> dom (user_profiles s) \<and> uid \<notin> dom (user_profiles s)) \<longrightarrow>
            user_profiles (snd (start uid (Some referrer) t s)) =
              (if uid \<in> dom (user_profiles s) then user_profiles s
               else (user_profiles s)(uid \<mapsto> UserProfile uid)))
       \<and> user_profiles (snd (start uid arg' t' (snd (start uid (Some referrer) t s))))
            = user_profiles (snd (start uid (Some referrer) t s))"
proof (intro conjI impI)
  assume "referrer \<noteq> uid \<and> user_profiles s referrer = Some rp \<and> user_profiles s uid = None"
  then show "user_profiles (snd (start uid (Some referrer) t s)) =
              (user_profiles s)
                (referrer \<mapsto> rp\<lparr> balance := balance rp + REFERRAL_REWARD (config s),
                                 referral_count := referral_count rp + 1 \<rparr>,
                 uid \<mapsto> (UserProfile uid)\<lparr> balance := REFERRAL_REWARD (config s),
                                          referred_by := Some referrer \<rparr>)"
    using assms by (simp add: start_def Let_def record_user_action_def domIff)
next
  assume "\<not> (referrer \<noteq> uid \<and> referrer \<in> dom (user_profiles s) \<and> uid \<notin> dom (user_profiles s))"
  then show "user_profiles (snd (start uid (Some referrer) t s)) =
              (if uid \<in> dom (user_profiles s) then user_profiles s
               else (user_profiles s)(uid \<mapsto> UserProfile uid))"
    using assms by (auto simp: start_def Let_def record_user_action_def split: option.splits)
next
  show "user_profiles (snd (start uid arg' t' (snd (start uid (Some referrer) t s))))
            = user_profiles (snd (start uid (Some referrer) t s))"
    by (rule start_again)
qed

text \<open>
  Witness for C6: user 7 arrives with the link of user 3, who has a profile; user 3 is
  credited 50 and one referral, user 7 starts with 50 and \<^verbatim>\<open>referred_by = 3\<close>, and
  a second arrival changes nothing.
\<close>

theorem C6_witness:
  "7 \<notin> suspended_users (single_user (UserProfile 3))
   \<and> (3::int) \<noteq> 7
   \<and> user_profiles (single_user (UserProfile 3)) 3 = Some (UserProfile 3)
   \<and> user_profiles (single_user (UserProfile 3)) 7 = None
   \<and> user_profiles (snd (start 7 (Some 3) 0 (single_user (UserProfile 3)))) =
        (user_profiles (single_user (UserProfile 3)))
          (3 \<mapsto> (UserProfile 3)\<lparr> balance := 0 + 50, referral_count := 0 + 1 \<rparr>,
           7 \<mapsto> (UserProfile 7)\<lparr> balance := 50, referred_by := Some 3 \<rparr>)
   \<and> user_profiles (snd (start 7 (Some 3) 1 (snd (start 7 (Some 3) 0 (single_user (UserProfile 3))))))
        = user_profiles (snd (start 7 (Some 3) 0 (single_user (UserProfile 3))))"
proof -
  let ?s = "single_user (UserProfile 3)"
  have h1: "7 \<notin> suspended_users ?s" by (simp add: single_user_def)
  have h2: "(3::int) \<noteq> 7" by simp
  have h3: "user_profiles ?s 3 = Some (UserProfile 3)" by (simp add: single_user_def UserProfile_def)
  have h4: "user_profiles ?s 7 = None" by (simp add: single_user_def UserProfile_def)
  have v: "REFERRAL_REWARD (config ?s) = 50" "balance (UserProfile 3) = 0"
    "referral_count (UserProfile 3) = 0"
    by (simp_all add: single_user_def default_config_def UserProfile_def)
  note th = C6_referral_first_contact_only[OF h1, of 3 "UserProfile 3" 0 "Some 3" 1]
  from th h2 h3 h4
  have h5: "user_profiles (snd (start 7 (Some 3) 0 ?s)) =
        (user_profiles ?s)
          (3 \<mapsto> (UserProfile 3)\<lparr> balance := 0 + 50, referral_count := 0 + 1 \<rparr>,
           7 \<mapsto> (UserProfile 7)\<lparr> balance := 50, referred_by := Some 3 \<rparr>)"
    by (simp only: v) blast
  from th have h6: "user_profiles (snd (start 7 (Some 3) 1 (snd (start 7 (Some 3) 0 ?s))))
        = user_profiles (snd (start 7 (Some 3) 0 ?s))"
    by blast
  from h1 h2 h3 h4 h5 h6 show ?thesis by blast
qed

text \<open>
  The back-reference stays: none of \<^verbatim>\<open>mine\<close>, \<^verbatim>\<open>verify_task\<close> and \<^verbatim>\<open>start\<close>, whatever
  their outcome, changes \<^verbatim>\<open>referred_by\<close> of a stored profile.
\<close>

lemma streak_update_referred_by:
  "referred_by (snd (streak_update now sent p)) = referred_by p"
  by (simp add: streak_update_def Let_def split: option.splits)

lemma unlock_referred_by:
  "referred_by (fst (unlock_achievements now p)) = referred_by p"
  using unlock_frame[of now p] by auto

lemma mining_process_referred_by:
  assumes "user_profiles s2 uid = Some profile" and "user_profiles s2 u = Some q"
  shows "map_option referred_by (user_profiles (snd (mining_process uid env profile s2)) u)
           = Some (referred_by q)"
proof (cases "get_daily_limit profile (now_limit env)")
  case (Inl e)
  then show ?thesis using assms by (simp add: mining_process_def)
next
  case dl: (Inr dl)
  show ?thesis
  proof (cases "calculate_level (config s2) (total_mined profile)")
    case (Inl e)
    then show ?thesis using assms dl by (simp add: mining_process_def Let_def)
  next
    case lvl: (Inr lvl)
    define total_reward where "total_reward = dl + (if random_draw env < 1 / 10 then dl * (1 / 10) else 0)
       + (if current_streak profile > 0
          then min (of_int (current_streak profile) * STREAK_BONUS (config s2)) (MAX_STREAK_BONUS (config s2))
          else 0)
       + calculate_level_bonus (config s2) lvl * dl"
    define p1 where "p1 = claimed profile total_reward (now_claim env)"
    define s3 where "s3 = s2\<lparr>user_profiles := (user_profiles s2)(uid \<mapsto> p1)\<rparr>"
    define su where "su = streak_update (now_streak env) (send_ok env) p1"
    define s4 where "s4 = s3\<lparr>user_profiles := (user_profiles s3)(uid \<mapsto> snd su)\<rparr>"
    define ua where "ua = unlock_achievements (now_achievements env) (snd su)"
    define s5 where "s5 = s4\<lparr>user_profiles := (user_profiles s4)(uid \<mapsto> fst ua)\<rparr>"
    have l3: "user_profiles s3 uid = Some p1" by (simp add: s3_def)
    have cds: "check_daily_streak uid (now_streak env) (send_ok env) s3 = (fst su, s4)"
      unfolding su_def s4_def by (rule check_daily_streak_Some[OF l3])
    have l4: "user_profiles s4 uid = Some (snd su)" by (simp add: s4_def)
    have ca: "check_achievements uid (now_achievements env) s4
                = (Inr (map AchievementUnlocked (snd ua)), s5)"
      unfolding ua_def s5_def by (rule check_achievements_Some[OF l4])
    have final: "snd (mining_process uid env profile s2) = s4 \<or> snd (mining_process uid env profile s2) = s5"
      unfolding mining_process_def dl lvl Let_def sum.case
        total_reward_def[symmetric] claimed_def[symmetric] p1_def[symmetric] s3_def[symmetric] cds
      by (cases "fst su") (simp_all add: ca)
    have r1: "referred_by p1 = referred_by profile" by (simp add: p1_def claimed_def)
    have r4: "map_option referred_by (user_profiles s4 u) = Some (referred_by q)"
      using assms by (auto simp add: s4_def s3_def su_def streak_update_referred_by r1)
    have r5: "map_option referred_by (user_profiles s5 u) = Some (referred_by q)"
      using assms by (auto simp add: s5_def s4_def s3_def ua_def su_def unlock_referred_by
          streak_update_referred_by r1)
    from final r4 r5 show ?thesis by auto
  qed
qed

lemma mine_referred_by:
  assumes "user_profiles s u = Some q"
  shows "map_option referred_by (user_profiles (snd (mine uid env s)) u) = Some (referred_by q)"
proof (cases "uid \<in> suspended_users s")
  case True
  then show ?thesis using assms by (simp add: mine_def)
next
  case ns: False
  show ?thesis
  proof (cases "user_profiles s uid")
    case None
    then have "u \<noteq> uid" using assms by auto
    then show ?thesis using ns None assms
      by (simp add: mine_def Let_def domIff has_active_plan_def UserProfile_def)
  next
    case (Some profile)
    define s2 where "s2 = record_user_action uid (time_action env) s"
    have a: "user_profiles s2 uid = Some profile" "user_profiles s2 u = Some q"
      using Some assms by (simp_all add: s2_def record_user_action_def)
    note mp = mining_process_referred_by[OF a, of env]
    have b: "map_option referred_by (user_profiles s2 u) = Some (referred_by q)"
      using a by simp
    show ?thesis
      using ns Some assms mp b
      by (simp add: mine_def Let_def domIff s2_def[symmetric] split: option.splits)
  qed
qed

lemma verify_task_referred_by:
  assumes "user_profiles s u = Some q"
  shows "map_option referred_by (user_profiles (snd (verify_task uid tid is_member s)) u)
           = Some (referred_by q)"
  using assms by (auto simp: verify_task_def Let_def split: option.splits)

lemma start_referred_by:
  assumes "user_profiles s u = Some q"
  shows "map_option referred_by (user_profiles (snd (start uid arg t s)) u) = Some (referred_by q)"
  using assms
  by (cases arg) (auto simp: start_def Let_def record_user_action_def domIff split: option.splits)

subsection \<open>C7: a claim without any plan\<close>

text \<open>
  C7: for a user who is not suspended and has never bought a plan (no profile yet, or a
  profile whose \<^verbatim>\<open>energy_plan\<close> is \<^verbatim>\<open>None\<close>), the attempt is rejected with
  \<open>NoActivePlan\<close>. With a profile, the whole state is left as it was, so balance,
  total mined, mining count, both streaks, the time of the last claim and the
  achievements are unchanged. Without one, the only change is the profile that the
  handler creates for the user, with every field at its initial value.
\<close>

theorem C7_rejected_without_plan:
  assumes "uid \<notin> suspended_users s"
    and "user_profiles s uid = None \<or> (\<exists>p. user_profiles s uid = Some p \<and> energy_plan p = None)"
  shows "fst (mine uid env s) = NoActivePlan \<and>
         snd (mine uid env s) =
           (case user_profiles s uid of
              Some p \<Rightarrow> s
            | None \<Rightarrow> s\<lparr>user_profiles := (user_profiles s)(uid \<mapsto> UserProfile uid)\<rparr>)"
  using assms
  by (auto simp: mine_def Let_def domIff has_active_plan_def UserProfile_def)

text \<open>
  Witness for C7: user 7 holds a referral credit of 50 and no plan; the attempt is
  rejected and the state is the one before.
\<close>

theorem C7_witness:
  "7 \<notin> suspended_users (single_user ((UserProfile 7)\<lparr>balance := 50\<rparr>))
   \<and> user_profiles (single_user ((UserProfile 7)\<lparr>balance := 50\<rparr>)) 7
        = Some ((UserProfile 7)\<lparr>balance := 50\<rparr>)
   \<and> energy_plan ((UserProfile 7)\<lparr>balance := 50\<rparr>) = None
   \<and> fst (mine 7 (clock_at (timedelta_hours 36) (1 / 2))
             (single_user ((UserProfile 7)\<lparr>balance := 50\<rparr>))) = NoActivePlan
   \<and> snd (mine 7 (clock_at (timedelta_hours 36) (1 / 2))
             (single_user ((UserProfile 7)\<lparr>balance := 50\<rparr>)))
        = single_user ((UserProfile 7)\<lparr>balance := 50\<rparr>)"
proof -
  let ?p = "(UserProfile 7)\<lparr>balance := 50\<rparr>"
  let ?s = "single_user ?p"
  let ?env = "clock_at (timedelta_hours 36) (1 / 2)"
  have h1: "7 \<notin> suspended_users ?s" by (simp add: single_user_def)
  have h2: "user_profiles ?s 7 = Some ?p" by (simp add: single_user_def UserProfile_def)
  have h3: "energy_plan ?p = None" by (simp add: UserProfile_def)
  have h4: "user_profiles ?s 7 = None \<or> (\<exists>p. user_profiles ?s 7 = Some p \<and> energy_plan p = None)"
    using h2 h3 by blast
  from C7_rejected_without_plan[OF h1 h4, of ?env]
  have "fst (mine 7 ?env ?s) = NoActivePlan \<and> snd (mine 7 ?env ?s) = ?s"
    by (simp only: h2 option.case)
  with h1 h2 h3 show ?thesis by blast
qed

subsection \<open>C8: the representation of amounts\<close>

text \<open>
  C8 is about the machine representation of amounts (decimal fixed point against binary
  floating point) and the rounding of repeated additions. Amounts are exact rationals
  here, so this development neither states nor decides it. The source reads its
  rewards with \<^verbatim>\<open>float(...)\<close> and multiplies by the literal \<^verbatim>\<open>0.1\<close>.
\<close>

subsection \<open>C9: the first claim with the max plan\<close>

text \<open>
  C9: a user who is not suspended, has never claimed (no time of a last claim, streak
  0, nothing mined) and holds the \<^verbatim>\<open>max\<close> plan, active at both readings of the clock
  that look at it, claims with success: base 50, streak bonus 0, level 0, level bonus
  0, a reward of 55 when the draw is below one tenth and of 50 otherwise, and a streak
  of 1 afterwards. The level threshold may be any value that \<^verbatim>\<open>config_set\<close> can leave
  there except 0, where the division raises.
\<close>

theorem C9_first_claim_with_max_plan:
  assumes "uid \<notin> suspended_users s"
    and "user_profiles s uid = Some p"
    and "last_mine_time p = None" and "current_streak p = 0" and "total_mined p = 0"
    and "energy_plan p = Some ''max''" and "energy_expires p = Some e"
    and "now_plan env < e" and "now_limit env < e"
    and "LEVEL_THRESHOLD (config s) \<noteq> 0"
  shows "\<exists>r s' p'. mine uid env s = (MiningSuccessful r, s') \<and>
           rep_daily_limit r = 50 \<and> rep_streak_bonus r = 0 \<and>
           rep_level r = 0 \<and> rep_level_bonus r = 0 \<and>
           rep_total_reward r = (if random_draw env < 1 / 10 then 55 else 50) \<and>
           user_profiles s' uid = Some p' \<and> current_streak p' = 1"
proof -
  define s2 where "s2 = record_user_action uid (time_action env) s"
  define bonus :: rat where "bonus = (if random_draw env < 1 / 10 then 50 * (1 / 10) else 0)"
  define total_reward :: rat where "total_reward = 50 + bonus"
  define su where "su = streak_update (now_streak env) (send_ok env) (claimed p total_reward (now_claim env))"
  have cfg: "config s2 = config s" by (simp add: s2_def record_user_action_def)
  have act: "has_active_plan p (now_plan env)"
    using assms by (simp add: has_active_plan_def)
  have m: "mine uid env s = mining_process uid env p s2"
    using assms(1,2,3) act by (simp add: mine_def Let_def domIff s2_def)
  have dl: "get_daily_limit p (now_limit env) = Inr 50"
    using assms by (simp add: get_daily_limit_def has_active_plan_def ENERGY_PLANS_def)
  have lvl: "calculate_level (config s2) (total_mined p) = Inr 0"
    using assms by (simp add: calculate_level_def cfg py_int_zero)
  have sb: "(0::rat) = (if current_streak p > 0
        then min (of_int (current_streak p) * STREAK_BONUS (config s2)) (MAX_STREAK_BONUS (config s2))
        else 0)"
    using assms by simp
  have tr: "total_reward = 50 + bonus + 0 + calculate_level_bonus (config s2) 0 * 50"
    by (simp add: total_reward_def calculate_level_bonus_def)
  have su_ok: "fst su = Inr [] \<and> current_streak (snd su) = 1"
    using assms(4) by (simp add: su_def streak_update_def claimed_def Let_def)
  then have su_eq: "streak_update (now_streak env) (send_ok env) (claimed p total_reward (now_claim env))
               = (Inr [], snd su)"
    by (simp add: su_def prod_eq_iff)
  note ev = mining_process_eval[OF dl lvl bonus_def sb tr su_eq, of uid]
  have cs: "current_streak (fst (unlock_achievements (now_achievements env) (snd su))) = 1"
    using su_ok by (simp add: unlock_fields)
  have tot: "total_reward = (if random_draw env < 1 / 10 then 55 else 50)"
    by (simp add: total_reward_def bonus_def)
  show ?thesis
    unfolding m ev
    by (simp add: cs tot calculate_level_bonus_def)
qed

text \<open>
  Witness for C9: user 7 with a fresh \<^verbatim>\<open>max\<close> plan and a draw of one twentieth meets
  every hypothesis, and the claim pays 55.
\<close>

theorem C9_witness:
  "7 \<notin> suspended_users (single_user first_timer)
   \<and> user_profiles (single_user first_timer) 7 = Some first_timer
   \<and> last_mine_time first_timer = None \<and> current_streak first_timer = 0
   \<and> total_mined first_timer = 0
   \<and> energy_plan first_timer = Some ''max''
   \<and> energy_expires first_timer = Some (timedelta_days 30)
   \<and> now_plan (clock_at (timedelta_hours 36) (1 / 20)) < timedelta_days 30
   \<and> now_limit (clock_at (timedelta_hours 36) (1 / 20)) < timedelta_days 30
   \<and> LEVEL_THRESHOLD (config (single_user first_timer)) \<noteq> 0
   \<and> (\<exists>r s' p'. mine 7 (clock_at (timedelta_hours 36) (1 / 20)) (single_user first_timer)
                    = (MiningSuccessful r, s') \<and>
           rep_daily_limit r = 50 \<and> rep_streak_bonus r = 0 \<and>
           rep_level r = 0 \<and> rep_level_bonus r = 0 \<and>
           rep_total_reward r = 55 \<and>
           user_profiles s' 7 = Some p' \<and> current_streak p' = 1)"
proof -
  let ?s = "single_user first_timer"
  let ?env = "clock_at (timedelta_hours 36) (1 / 20)"
  have h1: "7 \<notin> suspended_users ?s" by (simp add: single_user_def)
  have h2: "user_profiles ?s 7 = Some first_timer"
    by (simp add: fixture_defs UserProfile_def)
  have h3: "last_mine_time first_timer = None" by (simp add: fixture_defs UserProfile_def)
  have h4: "current_streak first_timer = 0" by (simp add: fixture_defs UserProfile_def)
  have h5: "total_mined first_timer = 0" by (simp add: fixture_defs UserProfile_def)
  have h6: "energy_plan first_timer = Some ''max''" by (simp add: fixture_defs)
  have h7: "energy_expires first_timer = Some (timedelta_days 30)" by (simp add: fixture_defs)
  have h8: "now_plan ?env < timedelta_days 30"
    by (simp add: clock_at_def timedelta_days_def timedelta_hours_def timedelta_seconds_def)
  have h9: "now_limit ?env < timedelta_days 30"
    by (simp add: clock_at_def timedelta_days_def timedelta_hours_def timedelta_seconds_def)
  have h10: "LEVEL_THRESHOLD (config ?s) \<noteq> 0"
    by (simp add: single_user_def default_config_def)
  have d: "random_draw ?env < 1 / 10" by (simp add: clock_at_def)
  from C9_first_claim_with_max_plan[OF h1 h2 h3 h4 h5 h6 h7 h8 h9 h10]
  have h11: "\<exists>r s' p'. mine 7 ?env ?s = (MiningSuccessful r, s') \<and>
           rep_daily_limit r = 50 \<and> rep_streak_bonus r = 0 \<and>
           rep_level r = 0 \<and> rep_level_bonus r = 0 \<and>
           rep_total_reward r = 55 \<and>
           user_profiles s' 7 = Some p' \<and> current_streak p' = 1"
    by (simp only: d if_True)
  from h1 h2 h3 h4 h5 h6 h7 h8 h9 h10 h11 show ?thesis by blast
qed

subsection \<open>C10: the streak check after the claim has stored its time\<close>

text \<open>
  The day component of a duration of less than a day, not negative, is 0.
\<close>

lemma days_within_a_day:
  assumes "0 \<le> d" and "d < timedelta_days 1"
  shows "days d = 0"
  using assms by (simp add: days_def)

text \<open>
  C10: \<^verbatim>\<open>mine\<close> stores the time of the claim before it calls
  \<^verbatim>\<open>check_daily_streak\<close>. When the clock read by the streak check is not behind the
  one read by the claim and less than a day ahead of it, the day difference is 0, and
  every successful claim leaves the profile with this claim's time and a streak one
  higher than before, whatever the time of the previous claim was; no streak-broken
  notice is sent.
\<close>

theorem C10_claim_always_increments_streak:
  assumes "mine uid env s = (MiningSuccessful r, s')"
    and "user_profiles s uid = Some p"
    and "now_claim env \<le> now_streak env"
    and "now_streak env - now_claim env < timedelta_days 1"
  shows "days (now_streak env - now_claim env) = 0 \<and>
         (\<exists>p'. user_profiles s' uid = Some p' \<and>
                last_mine_time p' = Some (now_claim env) \<and>
                current_streak p' = current_streak p + 1) \<and>
         (\<forall>n. StreakBroken n \<notin> set (rep_notifications r))"
proof -
  have d: "days (now_streak env - now_claim env) = 0"
    using assms(3,4) by (intro days_within_a_day) simp_all
  from mine_success_profile[OF assms(1,2)] d show ?thesis
    by auto
qed

text \<open>
  Witness for C10: user 7 claims 40 days after the last claim, with a streak of 3; the
  streak becomes 4.
\<close>

theorem C10_witness:
  "mine 7 (clock_at (timedelta_days 40) (1 / 2))
        (single_user ((regular_miner 3 156)\<lparr>energy_expires := Some (timedelta_days 60)\<rparr>)) =
     (MiningSuccessful
        \<lparr> rep_daily_limit = 50, rep_bonus = 0, rep_streak_bonus = 6, rep_level = 0,
          rep_level_bonus = 0, rep_total_reward = 56,
          rep_notifications = [AchievementUnlocked ''early_bird''] \<rparr>,
      snd (mine 7 (clock_at (timedelta_days 40) (1 / 2))
             (single_user ((regular_miner 3 156)\<lparr>energy_expires := Some (timedelta_days 60)\<rparr>))))
   \<and> last_mine_time ((regular_miner 3 156)\<lparr>energy_expires := Some (timedelta_days 60)\<rparr>) = Some 0
   \<and> current_streak ((regular_miner 3 156)\<lparr>energy_expires := Some (timedelta_days 60)\<rparr>) = 3
   \<and> now_claim (clock_at (timedelta_days 40) (1 / 2)) \<le> now_streak (clock_at (timedelta_days 40) (1 / 2))
   \<and> now_streak (clock_at (timedelta_days 40) (1 / 2)) - now_claim (clock_at (timedelta_days 40) (1 / 2))
        < timedelta_days 1
   \<and> (\<exists>p'. user_profiles
              (snd (mine 7 (clock_at (timedelta_days 40) (1 / 2))
                      (single_user ((regular_miner 3 156)\<lparr>energy_expires := Some (timedelta_days 60)\<rparr>)))) 7
              = Some p' \<and>
            last_mine_time p' = Some (timedelta_days 40) \<and> current_streak p' = 3 + 1)"
proof -
  let ?p = "(regular_miner 3 156)\<lparr>energy_expires := Some (timedelta_days 60)\<rparr>"
  let ?s = "single_user ?p"
  let ?env = "clock_at (timedelta_days 40) (1 / 2)"
  let ?r = "\<lparr> rep_daily_limit = 50, rep_bonus = 0, rep_streak_bonus = 6, rep_level = 0,
          rep_level_bonus = 0, rep_total_reward = 56,
          rep_notifications = [AchievementUnlocked ''early_bird''] \<rparr>"
  have f: "fst (mine 7 ?env ?s) = MiningSuccessful ?r" by code_simp
  have h1: "mine 7 ?env ?s = (MiningSuccessful ?r, snd (mine 7 ?env ?s))"
    by (rule pair_fstI[OF f])
  have h2: "user_profiles ?s 7 = Some ?p" by (simp add: fixture_defs UserProfile_def)
  have h3: "now_claim ?env \<le> now_streak ?env" by (simp add: clock_at_def)
  have h4: "now_streak ?env - now_claim ?env < timedelta_days 1"
    by (simp add: clock_at_def timedelta_days_def timedelta_hours_def timedelta_seconds_def)
  have h5: "last_mine_time ?p = Some 0" by (simp add: fixture_defs)
  have h6: "current_streak ?p = 3" by (simp add: fixture_defs)
  have h7: "now_claim ?env = timedelta_days 40" by (simp add: clock_at_def)
  from C10_claim_always_increments_streak[OF h1 h2 h3 h4]
  have h8: "\<exists>p'. user_profiles (snd (mine 7 ?env ?s)) 7 = Some p' \<and>
            last_mine_time p' = Some (timedelta_days 40) \<and> current_streak p' = 3 + 1"
    by (simp only: h6 h7)
  from h1 h3 h4 h5 h6 h8 show ?thesis by blast
qed

end
